theory Spec2Isabelle
  imports Main
begin

section \<open>Python values\<close>

text \<open>
  A Python \<open>str\<close> is a sequence of Unicode code points, so it is modelled as a list of
  natural numbers; \<open>py\<close> turns an ASCII literal of the source into that form, and the few
  non-ASCII characters of the source's literals are written as their code points.
\<close>

type_synonym pystr = "nat list"

definition py :: "string \<Rightarrow> pystr" where
  "py cs = map of_char cs"

text \<open>
  \<open>str.isspace\<close> on one code point, the set CPython's \<open>str.strip()\<close> removes:
  U+0009..U+000D, U+001C..U+0020, U+0085, U+00A0, U+1680, U+2000..U+200A, U+2028, U+2029,
  U+202F, U+205F and U+3000.
\<close>

definition isspace :: "nat \<Rightarrow> bool" where
  "isspace c =
     ((9 \<le> c \<and> c \<le> 13) \<or> (28 \<le> c \<and> c \<le> 32) \<or> c = 133 \<or> c = 160 \<or> c = 5760 \<or>
      (8192 \<le> c \<and> c \<le> 8202) \<or> c = 8232 \<or> c = 8233 \<or> c = 8239 \<or> c = 8287 \<or> c = 12288)"

definition strip :: "pystr \<Rightarrow> pystr" where
  "strip s = rev (dropWhile isspace (rev (dropWhile isspace s)))"

definition startswith :: "pystr \<Rightarrow> pystr \<Rightarrow> bool" where
  "startswith s p = (take (length p) s = p)"

text \<open>
  The values the Gmail client returns and the request bodies the program builds are JSON
  documents: Python's \<open>None\<close>, \<open>bool\<close>, \<open>int\<close>, \<open>str\<close>, \<open>list\<close> and \<open>dict\<close> (a dict keeps
  its insertion order, hence the association list; a lookup takes the first entry of a key).
\<close>

datatype json =
    JNone
  | JBool bool
  | JInt int
  | JStr pystr
  | JList "json list"
  | JDict "(pystr \<times> json) list"

text \<open>
  Exceptions of class \<open>Exception\<close>, the ones \<open>except Exception\<close> handles. \<open>KeyError\<close> carries
  the missing key, the others the text \<open>str(e)\<close> gives; \<open>OtherException\<close> stands for whatever
  a library call raises (\<open>HttpError\<close>, \<open>binascii.Error\<close>, \<open>UnicodeDecodeError\<close>, ...).
\<close>

datatype py_exc =
    KeyError pystr
  | TypeError pystr
  | AttributeError pystr
  | OtherException pystr

type_synonym 'a res = "py_exc + 'a"

text \<open>\<open>str(e)\<close>: a \<open>KeyError\<close> prints the \<open>repr\<close> of its key, here always a literal of the source.\<close>

definition quoted :: "pystr \<Rightarrow> pystr" where
  "quoted s = [39] @ s @ [39]"

fun str_exc :: "py_exc \<Rightarrow> pystr" where
  "str_exc (KeyError k) = quoted k"
| "str_exc (TypeError m) = m"
| "str_exc (AttributeError m) = m"
| "str_exc (OtherException m) = m"

definition and_then :: "'a res \<Rightarrow> ('a \<Rightarrow> 'b res) \<Rightarrow> 'b res" where
  "and_then r f = (case r of Inl e \<Rightarrow> Inl e | Inr x \<Rightarrow> f x)"

text \<open>Truth value testing (\<open>if x:\<close>, \<open>not x\<close>).\<close>

fun truthy :: "json \<Rightarrow> bool" where
  "truthy JNone = False"
| "truthy (JBool b) = b"
| "truthy (JInt i) = (i \<noteq> 0)"
| "truthy (JStr s) = (s \<noteq> [])"
| "truthy (JList xs) = (xs \<noteq> [])"
| "truthy (JDict kvs) = (kvs \<noteq> [])"

fun type_name :: "json \<Rightarrow> pystr" where
  "type_name JNone = py ''NoneType''"
| "type_name (JBool b) = py ''bool''"
| "type_name (JInt i) = py ''int''"
| "type_name (JStr s) = py ''str''"
| "type_name (JList xs) = py ''list''"
| "type_name (JDict kvs) = py ''dict''"

text \<open>\<open>x[key]\<close> with a string key: only a dict can answer, and only for a key it holds.\<close>

fun subscript :: "json \<Rightarrow> pystr \<Rightarrow> json res" where
  "subscript (JDict kvs) k = (case map_of kvs k of Some v \<Rightarrow> Inr v | None \<Rightarrow> Inl (KeyError k))"
| "subscript (JStr s) k = Inl (TypeError (py ''string indices must be integers''))"
| "subscript (JList xs) k =
     Inl (TypeError (py ''list indices must be integers or slices, not str''))"
| "subscript v k = Inl (TypeError (quoted (type_name v) @ py '' object is not subscriptable''))"

text \<open>\<open>x.get(key)\<close>: a dict method, \<open>None\<close> for a missing key; no other JSON value has it.\<close>

fun dict_get :: "json \<Rightarrow> pystr \<Rightarrow> json res" where
  "dict_get (JDict kvs) k = (case map_of kvs k of Some v \<Rightarrow> Inr v | None \<Rightarrow> Inr JNone)"
| "dict_get v k =
     Inl (AttributeError (quoted (type_name v) @ py '' object has no attribute '' @ quoted (py ''get'')))"

text \<open>\<open>for x in v\<close>: a list gives its items, a dict its keys, a string its characters.\<close>

fun py_iter :: "json \<Rightarrow> json list res" where
  "py_iter (JList xs) = Inr xs"
| "py_iter (JDict kvs) = Inr (map (\<lambda>kv. JStr (fst kv)) kvs)"
| "py_iter (JStr s) = Inr (map (\<lambda>c. JStr [c]) s)"
| "py_iter v = Inl (TypeError (quoted (type_name v) @ py '' object is not iterable''))"

text \<open>
  \<open>try: body except Exception as e: return handler(e)\<close>, for a body that has already run
  and left the world \<open>w\<close> behind.
\<close>

definition except_Exception :: "'a res \<times> 'w \<Rightarrow> (py_exc \<Rightarrow> 'a) \<Rightarrow> 'a res \<times> 'w" where
  "except_Exception body handler =
     (case body of (Inl e, w) \<Rightarrow> (Inr (handler e), w) | (Inr r, w) \<Rightarrow> (Inr r, w))"

section \<open>The mailbox gateway and the module's globals\<close>

text \<open>
  The four calls the program makes on the Gmail client \<open>service\<close>, each with the arguments
  the source passes: the user id, then the message id and format, or the request body.
\<close>

datatype request =
    MessagesList pystr "pystr list" int
  | MessagesGet pystr pystr pystr
  | MessagesModify pystr pystr json
  | DraftsCreate pystr json

text \<open>
  Everything outside the repository is a parameter. \<open>execute\<close> is the remote mailbox: it
  answers a request from its state \<open>'s\<close> with a JSON document or an exception, and leaves a
  new state. \<open>encode_message\<close> is lines 120-126 of \<open>draft_email\<close> (building the
  \<open>EmailMessage\<close> and \<open>base64.urlsafe_b64encode(message.as_bytes()).decode()\<close>),
  \<open>decode_data\<close> is \<open>base64.urlsafe_b64decode(data).decode()\<close>, \<open>get_text\<close> is
  \<open>BeautifulSoup(text, "html.parser").get_text(separator='\n')\<close>, and \<open>format_value\<close> is
  what an f-string prints for a value that is not a \<open>str\<close>.
\<close>

record 's platform =
  execute :: "request \<Rightarrow> 's \<Rightarrow> json res \<times> 's"
  encode_message :: "pystr \<Rightarrow> pystr \<Rightarrow> pystr \<Rightarrow> pystr res"
  decode_data :: "json \<Rightarrow> pystr res"
  get_text :: "pystr \<Rightarrow> pystr res"
  format_value :: "json \<Rightarrow> pystr"

text \<open>
  The state a function of the module can reach: the mailbox behind \<open>service\<close> and the
  module-level variable \<open>CURRENT_EMAIL_ID\<close> (\<open>None\<close> until the UI selects an email).
\<close>

record 's world =
  mailbox :: 's
  CURRENT_EMAIL_ID :: "pystr option"

definition call :: "'s platform \<Rightarrow> request \<Rightarrow> 's world \<Rightarrow> json res \<times> 's world" where
  "call P rq w = (case execute P rq (mailbox w) of (r, s') \<Rightarrow> (r, w\<lparr>mailbox := s'\<rparr>))"

definition fstring :: "'s platform \<Rightarrow> json \<Rightarrow> pystr" where
  "fstring P v = (case v of JStr s \<Rightarrow> s | _ \<Rightarrow> format_value P v)"

section \<open>The action tools\<close>

record tool_result =
  status :: pystr
  message :: pystr

definition error_result :: "py_exc \<Rightarrow> tool_result" where
  "error_result e = \<lparr>status = py ''error'', message = str_exc e\<rparr>"

text \<open>The body of the \<open>try\<close> block of \<open>draft_email\<close>.\<close>

definition draft_email_try ::
  "'s platform \<Rightarrow> 's world \<Rightarrow> pystr \<Rightarrow> pystr \<Rightarrow> pystr \<Rightarrow> tool_result res \<times> 's world" where
  "draft_email_try P w recipient subject body =
     (case encode_message P recipient subject body of
        Inl e \<Rightarrow> (Inl e, w)
      | Inr encoded_message \<Rightarrow>
          (case call P (DraftsCreate (py ''me'')
                  (JDict [(py ''message'', JDict [(py ''raw'', JStr encoded_message)])])) w of
             (Inl e, w') \<Rightarrow> (Inl e, w')
           | (Inr draft, w') \<Rightarrow>
               (and_then (subscript draft (py ''id'')) (\<lambda>i.
                  Inr \<lparr>status = py ''success'',
                       message = [9989] @ py '' Real draft created! ID: '' @ fstring P i\<rparr>), w')))"

definition draft_email ::
  "'s platform \<Rightarrow> 's world \<Rightarrow> pystr \<Rightarrow> pystr \<Rightarrow> pystr \<Rightarrow> tool_result res \<times> 's world" where
  "draft_email P w recipient subject body =
     except_Exception (draft_email_try P w recipient subject body) error_result"

definition archive_email_by_id_try ::
  "'s platform \<Rightarrow> 's world \<Rightarrow> pystr \<Rightarrow> tool_result res \<times> 's world" where
  "archive_email_by_id_try P w email_id =
     (case call P (MessagesModify (py ''me'') email_id
             (JDict [(py ''removeLabelIds'', JList [JStr (py ''INBOX'')])])) w of
        (Inl e, w') \<Rightarrow> (Inl e, w')
      | (Inr _, w') \<Rightarrow>
          (Inr \<lparr>status = py ''success'',
                message = [128230] @ py '' Email '' @ email_id @ py '' has been really archived.''\<rparr>,
           w'))"

definition archive_email_by_id ::
  "'s platform \<Rightarrow> 's world \<Rightarrow> pystr \<Rightarrow> tool_result res \<times> 's world" where
  "archive_email_by_id P w email_id =
     (if email_id = []
      then (Inr \<lparr>status = py ''error'', message = py ''Email ID not provided for archiving.''\<rparr>, w)
      else except_Exception (archive_email_by_id_try P w email_id) error_result)"

definition delete_email_by_id_try ::
  "'s platform \<Rightarrow> 's world \<Rightarrow> pystr \<Rightarrow> tool_result res \<times> 's world" where
  "delete_email_by_id_try P w email_id =
     (case call P (MessagesModify (py ''me'') email_id
             (JDict [(py ''addLabelIds'', JList [JStr (py ''TRASH'')])])) w of
        (Inl e, w') \<Rightarrow> (Inl e, w')
      | (Inr _, w') \<Rightarrow>
          (Inr \<lparr>status = py ''success'',
                message = [128465, 65039] @ py '' Email '' @ email_id @ py '' moved to trash.''\<rparr>,
           w'))"

definition delete_email_by_id ::
  "'s platform \<Rightarrow> 's world \<Rightarrow> pystr \<Rightarrow> tool_result res \<times> 's world" where
  "delete_email_by_id P w email_id =
     (if email_id = []
      then (Inr \<lparr>status = py ''error'', message = py ''Email ID not provided for deleting.''\<rparr>, w)
      else except_Exception (delete_email_by_id_try P w email_id) error_result)"

text \<open>\<open>create_reminder\<close> touches neither \<open>service\<close> nor any global: it only formats its arguments.\<close>

definition create_reminder :: "pystr \<Rightarrow> pystr \<Rightarrow> tool_result res" where
  "create_reminder task date =
     Inr \<lparr>status = py ''success'',
          message = [9200] @ py '' Reminder set: '' @ task @ py '' on '' @ date\<rparr>"

text \<open>
  \<open>REAL_TOOLS\<close>: the four functions handed to the agent. An invocation names one of them
  and gives its arguments; \<open>invoke\<close> runs it in the current world.
\<close>

datatype tool_invocation =
    Draft_email pystr pystr pystr
  | Archive_email_by_id pystr
  | Delete_email_by_id pystr
  | Create_reminder pystr pystr

fun invoke :: "'s platform \<Rightarrow> 's world \<Rightarrow> tool_invocation \<Rightarrow> tool_result res \<times> 's world" where
  "invoke P w (Draft_email recipient subject body) = draft_email P w recipient subject body"
| "invoke P w (Archive_email_by_id email_id) = archive_email_by_id P w email_id"
| "invoke P w (Delete_email_by_id email_id) = delete_email_by_id P w email_id"
| "invoke P w (Create_reminder task date) = (create_reminder task date, w)"

section \<open>Reading an email's body\<close>

text \<open>\<open>x['body']['data']\<close>, read from a part and from the payload itself.\<close>

definition body_data :: "json \<Rightarrow> json res" where
  "body_data x = and_then (subscript x (py ''body'')) (\<lambda>body. subscript body (py ''data''))"

text \<open>
  One \<open>for part in parts\<close> loop of \<open>get_email_body\<close>: the first part whose \<open>mimeType\<close> is
  \<open>mime\<close> sets \<open>data\<close> to its \<open>body.data\<close> and ends the loop; a loop that finds none leaves
  \<open>data\<close> as it was.
\<close>

fun find_part_data :: "pystr \<Rightarrow> json list \<Rightarrow> json \<Rightarrow> json res" where
  "find_part_data mime [] data = Inr data"
| "find_part_data mime (part # rest) data =
     (case subscript part (py ''mimeType'') of
        Inl e \<Rightarrow> Inl e
      | Inr mimeType \<Rightarrow>
          if mimeType = JStr mime
          then body_data part
          else find_part_data mime rest data)"

text \<open>Lines 83-98 of \<open>get_email_body\<close>: the value of \<open>data\<close> the payload leads to.\<close>

definition select_data :: "json \<Rightarrow> json res" where
  "select_data payload =
     and_then (dict_get payload (py ''parts'')) (\<lambda>parts.
       if truthy parts
       then and_then (py_iter parts) (\<lambda>ps.
              and_then (find_part_data (py ''text/plain'') ps JNone) (\<lambda>data.
                if \<not> truthy data then find_part_data (py ''text/html'') ps data else Inr data))
       else body_data payload)"

text \<open>
  The \<open>try\<close> block of \<open>get_email_body\<close>: \<open>Some\<close> text when it returns, \<open>None\<close> when it falls
  through to the last line of the function.
\<close>

definition get_email_body_try ::
  "'s platform \<Rightarrow> 's world \<Rightarrow> pystr \<Rightarrow> pystr option res \<times> 's world" where
  "get_email_body_try P w msg_id =
     (case call P (MessagesGet (py ''me'') msg_id (py ''full'')) w of
        (Inl e, w') \<Rightarrow> (Inl e, w')
      | (Inr msg, w') \<Rightarrow>
          (and_then (subscript msg (py ''payload'')) (\<lambda>payload.
           and_then (select_data payload) (\<lambda>data.
             if truthy data
             then and_then (decode_data P data) (\<lambda>text.
                  and_then (get_text P text) (\<lambda>soup_text. Inr (Some (strip soup_text))))
             else Inr None)), w'))"

definition get_email_body :: "'s platform \<Rightarrow> 's world \<Rightarrow> pystr \<Rightarrow> pystr res \<times> 's world" where
  "get_email_body P w msg_id =
     (case get_email_body_try P w msg_id of
        (Inl e, w') \<Rightarrow> (Inr (py ''Error reading email body: '' @ str_exc e), w')
      | (Inr (Some text), w') \<Rightarrow> (Inr text, w')
      | (Inr None, w') \<Rightarrow> (Inr (py ''(No readable content found)''), w'))"

section \<open>Processing the agent's events\<close>

text \<open>
  An event as the handler inspects it: \<open>tool_calls\<close> is \<open>None\<close> when the event has no such
  attribute, \<open>event_message\<close> is \<open>None\<close> when it has no (or a false) \<open>message\<close>, and the
  message's \<open>text_attr\<close> is \<open>None\<close> when it has no attribute \<open>text\<close>. A text that is there is a \<open>str\<close>.
\<close>

datatype tool_call = ToolCall (name: pystr) (args: json)

datatype agent_message = AgentMessage (text_attr: "pystr option")

datatype event = Event (tool_calls: "tool_call list option") (event_message: "agent_message option")

text \<open>
  The variables of the event loop (lines 279-299): the tool calls echoed with \<open>st.write\<close>,
  the flag \<open>action_taken\<close> and the list \<open>potential_agent_messages\<close>.
\<close>

record loop_state =
  echoed :: "tool_call list"
  action_taken :: bool
  potential_agent_messages :: "pystr list"

definition display_tool_calls :: "event \<Rightarrow> loop_state \<Rightarrow> loop_state" where
  "display_tool_calls ev st =
     (case tool_calls ev of
        None \<Rightarrow> st
      | Some tcs \<Rightarrow>
          if tcs \<noteq> [] then st\<lparr>echoed := echoed st @ tcs, action_taken := True\<rparr> else st)"

definition capture_message :: "event \<Rightarrow> loop_state \<Rightarrow> loop_state" where
  "capture_message ev st =
     (case event_message ev of
        None \<Rightarrow> st
      | Some m \<Rightarrow>
          (case text_attr m of
             None \<Rightarrow> st
           | Some message_text \<Rightarrow>
               if strip message_text \<noteq> []
               then st\<lparr>potential_agent_messages :=
                         potential_agent_messages st @ [strip message_text]\<rparr>
               else st))"

fun event_loop :: "event list \<Rightarrow> loop_state \<Rightarrow> loop_state" where
  "event_loop [] st = st"
| "event_loop (ev # response_events) st =
     event_loop response_events (capture_message ev (display_tool_calls ev st))"

text \<open>Lines 303-309: the first message that passes the test replaces the initial \<open>""\<close>.\<close>

fun pick_dialogue :: "pystr list \<Rightarrow> pystr \<Rightarrow> pystr" where
  "pick_dialogue [] first_agent_dialogue = first_agent_dialogue"
| "pick_dialogue (msg # rest) first_agent_dialogue =
     (if \<not> startswith msg (py ''tool_code:'') \<and> \<not> startswith msg (py ''print('') \<and> strip msg \<noteq> []
      then msg
      else pick_dialogue rest first_agent_dialogue)"

definition scan :: "event list \<Rightarrow> loop_state" where
  "scan response_events =
     event_loop response_events
       \<lparr>echoed = [], action_taken = False, potential_agent_messages = []\<rparr>"

definition first_agent_dialogue :: "event list \<Rightarrow> pystr" where
  "first_agent_dialogue response_events =
     pick_dialogue (potential_agent_messages (scan response_events)) []"

text \<open>Lines 324-328: what is shown under the heading "Agent Final Report".\<close>

datatype widget = Success pystr | Info pystr

definition agent_final_report :: "pystr \<Rightarrow> widget" where
  "agent_final_report dialogue =
     (if dialogue \<noteq> [] then Success dialogue
      else Info (py ''Look at the terminal for the output''))"

text \<open>
  The button handler from the event loop on (lines 279-328). When a tool call was seen it
  refreshes the inbox and calls \<open>st.experimental_rerun()\<close>, which stops the script run there:
  the lines after it are not reached and \<open>report\<close> is \<open>None\<close>.
\<close>

record cycle =
  tool_echoes :: "tool_call list"
  report :: "widget option"

definition process_events :: "event list \<Rightarrow> cycle" where
  "process_events response_events =
     (let st = scan response_events;
          dialogue = pick_dialogue (potential_agent_messages st) []
      in if action_taken st
         then \<lparr>tool_echoes = echoed st, report = None\<rparr>
         else \<lparr>tool_echoes = echoed st, report = Some (agent_final_report dialogue)\<rparr>)"

section \<open>Gateways to observe the tools with\<close>

text \<open>
  A gateway that answers every request with \<open>answer\<close> and keeps the list of the requests
  it received, in order; the library functions are those of \<open>L\<close>.
\<close>

definition recording :: "(request \<Rightarrow> json res) \<Rightarrow> 'a platform \<Rightarrow> request list platform" where
  "recording answer L =
     \<lparr>execute = (\<lambda>rq log. (answer rq, log @ [rq])),
      encode_message = encode_message L,
      decode_data = decode_data L,
      get_text = get_text L,
      format_value = format_value L\<rparr>"

text \<open>A mailbox of labelled messages: each stored message has its label set and its content.\<close>

record stored_message =
  labelIds :: "pystr set"
  content :: json

type_synonym label_mailbox = "pystr \<Rightarrow> stored_message option"

text \<open>The list of label names a request body gives under \<open>key\<close> (none when the key is absent).\<close>

definition label_list :: "json \<Rightarrow> pystr \<Rightarrow> pystr list" where
  "label_list body key =
     (case dict_get body key of
        Inr (JList xs) \<Rightarrow> concat (map (\<lambda>x. case x of JStr l \<Rightarrow> [l] | _ \<Rightarrow> []) xs)
      | _ \<Rightarrow> [])"

text \<open>
  Modelled from the spec: the MailboxGateway operation \<open>relabel(id, add=[], remove=[])\<close>, which
  the Gmail service behind \<open>messages().modify\<close> performs and which is no code of the
  repository. A message that exists loses the labels of \<open>remove\<close> and gains those of \<open>add\<close>;
  nothing else of the mailbox changes; an unknown id is refused.
\<close>

definition relabel ::
  "pystr \<Rightarrow> pystr list \<Rightarrow> pystr list \<Rightarrow> label_mailbox \<Rightarrow> json res \<times> label_mailbox" where
  "relabel i add remove mb =
     (case mb i of
        None \<Rightarrow> (Inl (OtherException (py ''Requested entity was not found.'')), mb)
      | Some m \<Rightarrow>
          (Inr (JDict [(py ''id'', JStr i)]),
           mb(i \<mapsto> m\<lparr>labelIds := (labelIds m - set remove) \<union> set add\<rparr>)))"

text \<open>
  The gateway over such a mailbox: \<open>modify\<close> is \<open>relabel\<close> with the two label lists of the
  request body; the label model holds neither drafts nor listings, so it refuses the other
  requests and leaves the mailbox as it is.
\<close>

definition label_gateway :: "'a platform \<Rightarrow> label_mailbox platform" where
  "label_gateway L =
     \<lparr>execute = (\<lambda>rq mb.
        case rq of
          MessagesModify userId i body \<Rightarrow>
            relabel i (label_list body (py ''addLabelIds'')) (label_list body (py ''removeLabelIds'')) mb
        | _ \<Rightarrow> (Inl (OtherException (py ''not supported'')), mb)),
      encode_message = encode_message L,
      decode_data = decode_data L,
      get_text = get_text L,
      format_value = format_value L\<rparr>"

section \<open>Vocabulary of the properties\<close>

text \<open>A textual event is one whose message has a text; its text, and its text after \<open>strip()\<close>.\<close>

definition event_text :: "event \<Rightarrow> pystr option" where
  "event_text ev = (case event_message ev of None \<Rightarrow> None | Some m \<Rightarrow> text_attr m)"

definition stripped_text :: "event \<Rightarrow> pystr option" where
  "stripped_text ev = map_option strip (event_text ev)"

definition texts :: "event list \<Rightarrow> pystr list" where
  "texts evs = List.map_filter event_text evs"

definition has_tool_calls :: "event \<Rightarrow> bool" where
  "has_tool_calls ev = (case tool_calls ev of None \<Rightarrow> False | Some tcs \<Rightarrow> tcs \<noteq> [])"

definition no_tool_calls :: "event list \<Rightarrow> bool" where
  "no_tool_calls evs = list_all (\<lambda>ev. \<not> has_tool_calls ev) evs"

text \<open>
  A trimmed text qualifies as a report when it is not empty and does not look like an
  echoed tool invocation, which the source tests by the two prefixes.
\<close>

definition qualifies :: "pystr \<Rightarrow> bool" where
  "qualifies m = (m \<noteq> [] \<and> \<not> startswith m (py ''tool_code:'') \<and> \<not> startswith m (py ''print(''))"

definition candidate :: "event \<Rightarrow> bool" where
  "candidate ev = (case stripped_text ev of None \<Rightarrow> False | Some m \<Rightarrow> qualifies m)"

text \<open>
  The report is terminal in an event sequence when it is not empty and is the trimmed text
  of an event after which the sequence holds no tool call and no further text.
\<close>

definition report_is_terminal :: "event list \<Rightarrow> bool" where
  "report_is_terminal evs =
     (first_agent_dialogue evs \<noteq> [] \<and>
      list_ex (\<lambda>i. stripped_text (evs ! i) = Some (first_agent_dialogue evs) \<and>
                   list_all (\<lambda>ev. \<not> has_tool_calls ev \<and> event_text ev = None) (drop (Suc i) evs))
        [0 ..< length evs])"

text \<open>A part with the given \<open>mimeType\<close>, and a part that has some \<open>mimeType\<close> at all.\<close>

definition has_mime :: "pystr \<Rightarrow> json \<Rightarrow> bool" where
  "has_mime mime part = (subscript part (py ''mimeType'') = Inr (JStr mime))"

definition typed_part :: "json \<Rightarrow> bool" where
  "typed_part part = (case subscript part (py ''mimeType'') of Inl e \<Rightarrow> False | Inr m \<Rightarrow> True)"

section \<open>Example inputs\<close>

text \<open>Library functions that always succeed, for running the tools on concrete inputs.\<close>

definition plain_library :: "unit platform" where
  "plain_library =
     \<lparr>execute = (\<lambda>rq s. (Inr JNone, s)),
      encode_message = (\<lambda>recipient subject body. Inr (recipient @ subject @ body)),
      decode_data = (\<lambda>data. case data of JStr s \<Rightarrow> Inr s | _ \<Rightarrow> Inl (TypeError (py ''bad data''))),
      get_text = (\<lambda>text. Inr text),
      format_value = type_name\<rparr>"

text \<open>A gateway whose every request fails, as when the network is down.\<close>

definition unreachable :: "unit platform" where
  "unreachable = plain_library\<lparr>execute := (\<lambda>rq s. (Inl (OtherException (py ''timed out'')), s))\<rparr>"

definition no_selection :: "unit world" where
  "no_selection = \<lparr>mailbox = (), CURRENT_EMAIL_ID = None\<rparr>"

definition other_selection :: "unit world" where
  "other_selection = \<lparr>mailbox = (), CURRENT_EMAIL_ID = Some (py ''m2'')\<rparr>"

text \<open>A mailbox with one unread message \<open>m1\<close> in the inbox.\<close>

definition one_message :: stored_message where
  "one_message = \<lparr>labelIds = {py ''INBOX'', py ''UNREAD''}, content = JStr (py ''hello'')\<rparr>"

definition small_mailbox :: label_mailbox where
  "small_mailbox = Map.empty(py ''m1'' \<mapsto> one_message)"

text \<open>
  A payload whose first part is \<open>text/plain\<close> with empty data and whose second part is
  \<open>text/html\<close> with data.
\<close>

definition plain_part_empty :: json where
  "plain_part_empty =
     JDict [(py ''mimeType'', JStr (py ''text/plain'')), (py ''body'', JDict [(py ''data'', JStr [])])]"

definition html_part :: json where
  "html_part =
     JDict [(py ''mimeType'', JStr (py ''text/html'')),
            (py ''body'', JDict [(py ''data'', JStr (py ''PGI-aGk8L2I-''))])]"

definition mixed_payload :: json where
  "mixed_payload = JDict [(py ''parts'', JList [plain_part_empty, html_part])]"

text \<open>
  Three event sequences: the agent narrates, calls a tool, then reports; the agent only
  calls a tool; the agent's single text looks like an echoed invocation.
\<close>

definition archive_call :: tool_call where
  "archive_call = ToolCall (py ''archive_email_by_id'') (JDict [(py ''email_id'', JStr (py ''m1''))])"

definition narrated_events :: "event list" where
  "narrated_events =
     [Event None (Some (AgentMessage (Some (py ''Newsletter.'')))),
      Event (Some [archive_call]) None,
      Event None (Some (AgentMessage (Some (py ''FYI, archived.''))))]"

definition tool_only_events :: "event list" where
  "tool_only_events = [Event (Some [archive_call]) None]"

definition echo_events :: "event list" where
  "echo_events = [Event None (Some (AgentMessage (Some (py ''print(1)''))))]"

definition single_report_events :: "event list" where
  "single_report_events = [Event (Some []) None, Event None (Some (AgentMessage (Some (py '' URGENT. ''))))]"

text \<open>A gateway that answers every request with the document \<open>doc\<close>.\<close>

definition answering :: "json \<Rightarrow> unit platform" where
  "answering doc = plain_library\<lparr>execute := (\<lambda>rq s. (Inr doc, s))\<rparr>"

text \<open>
  More payloads: a \<open>text/plain\<close> part with data after an HTML part, an HTML part alone, a
  message without parts, and a message whose only body data is empty.
\<close>

definition plain_part :: json where
  "plain_part =
     JDict [(py ''mimeType'', JStr (py ''text/plain'')),
            (py ''body'', JDict [(py ''data'', JStr (py ''aGk-''))])]"

definition html_first_payload :: json where
  "html_first_payload = JDict [(py ''parts'', JList [html_part, plain_part])]"

definition html_only_payload :: json where
  "html_only_payload = JDict [(py ''parts'', JList [html_part])]"

definition simple_payload :: json where
  "simple_payload = JDict [(py ''body'', JDict [(py ''data'', JStr (py ''aGk-''))])]"

definition empty_message :: json where
  "empty_message = JDict [(py ''payload'', JDict [(py ''body'', JDict [(py ''data'', JStr [])])])]"

text \<open>
  The preference for \<open>text/plain\<close> read strictly: whenever the parts hold a \<open>text/plain\<close>
  part, the data selected is that of the first such part.
\<close>

definition prefers_plain :: "json \<Rightarrow> bool" where
  "prefers_plain payload =
     (case dict_get payload (py ''parts'') of
        Inr (JList ps) \<Rightarrow>
          (case List.find (has_mime (py ''text/plain'')) ps of
             Some p \<Rightarrow> select_data payload = body_data p
           | None \<Rightarrow> True)
      | _ \<Rightarrow> True)"

section \<open>The tools: what a try block and its handler return\<close>

lemma call_eq:
  "call P rq w = (fst (execute P rq (mailbox w)), w\<lparr>mailbox := snd (execute P rq (mailbox w))\<rparr>)"
  by (simp add: call_def split: prod.split)

lemma except_Exception_cases:
  "(\<exists>e. fst body = Inl e \<and> fst (except_Exception body h) = Inr (h e)) \<or>
   (\<exists>r. fst body = Inr r \<and> fst (except_Exception body h) = Inr r)"
  by (cases body; cases "fst body") (auto simp: except_Exception_def)

lemma except_Exception_Inl:
  "fst body = Inl e \<Longrightarrow> fst (except_Exception body h) = Inr (h e)"
  by (cases body) (auto simp: except_Exception_def)

lemma except_Exception_snd: "snd (except_Exception body h) = snd body"
  by (cases body; cases "fst body") (auto simp: except_Exception_def)

lemma status_error_result: "status (error_result e) = py ''error''"
  by (simp add: error_result_def)

lemma draft_email_try_status:
  "fst (draft_email_try P w a b c) = Inr r \<Longrightarrow> status r = py ''success''"
  by (auto simp: draft_email_try_def and_then_def call_eq split: sum.splits)

lemma archive_try_status:
  "fst (archive_email_by_id_try P w i) = Inr r \<Longrightarrow> status r = py ''success''"
  by (auto simp: archive_email_by_id_try_def call_eq split: sum.splits)

lemma delete_try_status:
  "fst (delete_email_by_id_try P w i) = Inr r \<Longrightarrow> status r = py ''success''"
  by (auto simp: delete_email_by_id_try_def call_eq split: sum.splits)

lemma invoke_total:
  "\<exists>r. fst (invoke P w tool) = Inr r \<and> (status r = py ''success'' \<or> status r = py ''error'')"
proof (cases tool)
  case (Draft_email a b c)
  show ?thesis
    using except_Exception_cases [of "draft_email_try P w a b c" error_result]
    by (auto simp: Draft_email draft_email_def status_error_result dest: draft_email_try_status)
next
  case (Archive_email_by_id i)
  show ?thesis
    using except_Exception_cases [of "archive_email_by_id_try P w i" error_result]
    by (auto simp: Archive_email_by_id archive_email_by_id_def status_error_result
        dest: archive_try_status)
next
  case (Delete_email_by_id i)
  show ?thesis
    using except_Exception_cases [of "delete_email_by_id_try P w i" error_result]
    by (auto simp: Delete_email_by_id delete_email_by_id_def status_error_result
        dest: delete_try_status)
next
  case (Create_reminder t d)
  show ?thesis by (simp add: Create_reminder create_reminder_def)
qed

text \<open>What each try block does, in terms of the gateway's answer.\<close>

lemma archive_try_fst:
  "fst (archive_email_by_id_try P w i) =
     (case fst (execute P (MessagesModify (py ''me'') i
            (JDict [(py ''removeLabelIds'', JList [JStr (py ''INBOX'')])])) (mailbox w)) of
        Inl e \<Rightarrow> Inl e
      | Inr x \<Rightarrow> Inr \<lparr>status = py ''success'',
            message = [128230] @ py '' Email '' @ i @ py '' has been really archived.''\<rparr>)"
  by (simp add: archive_email_by_id_try_def call_eq split: sum.splits)

lemma archive_try_snd:
  "snd (archive_email_by_id_try P w i) =
     w\<lparr>mailbox := snd (execute P (MessagesModify (py ''me'') i
            (JDict [(py ''removeLabelIds'', JList [JStr (py ''INBOX'')])])) (mailbox w))\<rparr>"
  by (simp add: archive_email_by_id_try_def call_eq split: sum.splits)

lemma delete_try_fst:
  "fst (delete_email_by_id_try P w i) =
     (case fst (execute P (MessagesModify (py ''me'') i
            (JDict [(py ''addLabelIds'', JList [JStr (py ''TRASH'')])])) (mailbox w)) of
        Inl e \<Rightarrow> Inl e
      | Inr x \<Rightarrow> Inr \<lparr>status = py ''success'',
            message = [128465, 65039] @ py '' Email '' @ i @ py '' moved to trash.''\<rparr>)"
  by (simp add: delete_email_by_id_try_def call_eq split: sum.splits)

lemma delete_try_snd:
  "snd (delete_email_by_id_try P w i) =
     w\<lparr>mailbox := snd (execute P (MessagesModify (py ''me'') i
            (JDict [(py ''addLabelIds'', JList [JStr (py ''TRASH'')])])) (mailbox w))\<rparr>"
  by (simp add: delete_email_by_id_try_def call_eq split: sum.splits)

lemma draft_try_fst:
  "fst (draft_email_try P w a b c) =
     (case encode_message P a b c of
        Inl e \<Rightarrow> Inl e
      | Inr raw \<Rightarrow>
          (case fst (execute P (DraftsCreate (py ''me'')
                  (JDict [(py ''message'', JDict [(py ''raw'', JStr raw)])])) (mailbox w)) of
             Inl e \<Rightarrow> Inl e
           | Inr draft \<Rightarrow>
               (case subscript draft (py ''id'') of
                  Inl e \<Rightarrow> Inl e
                | Inr i \<Rightarrow> Inr \<lparr>status = py ''success'',
                     message = [9989] @ py '' Real draft created! ID: '' @ fstring P i\<rparr>)))"
  by (simp add: draft_email_try_def call_eq and_then_def split: sum.splits)

lemma draft_try_snd:
  "snd (draft_email_try P w a b c) =
     (case encode_message P a b c of
        Inl e \<Rightarrow> w
      | Inr raw \<Rightarrow>
          w\<lparr>mailbox := snd (execute P (DraftsCreate (py ''me'')
                  (JDict [(py ''message'', JDict [(py ''raw'', JStr raw)])])) (mailbox w))\<rparr>)"
  by (simp add: draft_email_try_def call_eq split: sum.splits)

lemma except_Exception_fst:
  "fst (except_Exception body h) = (case fst body of Inl e \<Rightarrow> Inr (h e) | Inr r \<Rightarrow> Inr r)"
  by (cases body; cases "fst body") (auto simp: except_Exception_def)

lemmas tool_fst = draft_email_def archive_email_by_id_def delete_email_by_id_def
  except_Exception_fst draft_try_fst archive_try_fst delete_try_fst

lemmas tool_snd =
  except_Exception_snd draft_try_snd archive_try_snd delete_try_snd

section \<open>Properties of the action tools\<close>

text \<open>
  Claim C1. Every action tool (\<open>draft_email\<close>, \<open>archive_email_by_id\<close>, \<open>delete_email_by_id\<close>,
  \<open>create_reminder\<close>), for every input and every behaviour of the gateway and the libraries,
  returns a result (it never raises) whose \<open>status\<close> is \<open>success\<close> or \<open>error\<close> and whose
  \<open>message\<close> is a string; and every exception \<open>e\<close> raised inside a tool's \<open>try\<close> block comes
  back as \<open>{status: error, message: str(e)}\<close>.
\<close>

theorem action_tools_never_raise:
  "(\<exists>r. fst (invoke P w tool) = Inr r \<and> (status r = py ''success'' \<or> status r = py ''error''))
   \<and> (fst (draft_email_try P w recipient subject body) = Inl e \<longrightarrow>
        fst (draft_email P w recipient subject body) =
          Inr \<lparr>status = py ''error'', message = str_exc e\<rparr>)
   \<and> (email_id \<noteq> [] \<and> fst (archive_email_by_id_try P w email_id) = Inl e \<longrightarrow>
        fst (archive_email_by_id P w email_id) =
          Inr \<lparr>status = py ''error'', message = str_exc e\<rparr>)
   \<and> (email_id \<noteq> [] \<and> fst (delete_email_by_id_try P w email_id) = Inl e \<longrightarrow>
        fst (delete_email_by_id P w email_id) =
          Inr \<lparr>status = py ''error'', message = str_exc e\<rparr>)"
  using invoke_total [of P w tool]
  by (simp add: draft_email_def archive_email_by_id_def delete_email_by_id_def
      except_Exception_Inl error_result_def)

lemmas ex_defs = unreachable_def plain_library_def no_selection_def other_selection_def py_def

theorem action_tools_never_raise_witness:
  "fst (draft_email unreachable no_selection (py ''a@x.com'') (py ''Re'') (py ''ok'')) =
     Inr \<lparr>status = py ''error'', message = py ''timed out''\<rparr>
   \<and> fst (archive_email_by_id unreachable no_selection (py ''m1'')) =
     Inr \<lparr>status = py ''error'', message = py ''timed out''\<rparr>
   \<and> fst (delete_email_by_id unreachable no_selection (py ''m1'')) =
     Inr \<lparr>status = py ''error'', message = py ''timed out''\<rparr>"
proof -
  have d: "fst (draft_email_try unreachable no_selection (py ''a@x.com'') (py ''Re'') (py ''ok''))
             = Inl (OtherException (py ''timed out''))"
    by (simp add: draft_try_fst ex_defs)
  have a: "py ''m1'' \<noteq> [] \<and> fst (archive_email_by_id_try unreachable no_selection (py ''m1''))
             = Inl (OtherException (py ''timed out''))"
    by (simp add: archive_try_fst ex_defs)
  have t: "py ''m1'' \<noteq> [] \<and> fst (delete_email_by_id_try unreachable no_selection (py ''m1''))
             = Inl (OtherException (py ''timed out''))"
    by (simp add: delete_try_fst ex_defs)
  from action_tools_never_raise [of unreachable no_selection "Create_reminder [] []"
      "py ''a@x.com''" "py ''Re''" "py ''ok''" "OtherException (py ''timed out'')" "py ''m1''"]
    d a t
  show ?thesis by simp
qed

text \<open>
  Claim C4. A missing identifier is an error: with an empty \<open>email_id\<close>,
  \<open>archive_email_by_id\<close> and \<open>delete_email_by_id\<close> return \<open>status = error\<close> with their
  "not provided" message. An identifier or a recipient that the gateway or the message
  builder rejects is an error too: the exception it raises comes back as \<open>status = error\<close>.
  And none of the four tools raises, whatever it is called with.
\<close>

theorem missing_or_rejected_id_is_error:
  "fst (archive_email_by_id P w []) =
     Inr \<lparr>status = py ''error'', message = py ''Email ID not provided for archiving.''\<rparr>
   \<and> fst (delete_email_by_id P w []) =
     Inr \<lparr>status = py ''error'', message = py ''Email ID not provided for deleting.''\<rparr>
   \<and> (email_id \<noteq> [] \<and>
       fst (execute P (MessagesModify (py ''me'') email_id
              (JDict [(py ''removeLabelIds'', JList [JStr (py ''INBOX'')])])) (mailbox w)) = Inl e \<longrightarrow>
       fst (archive_email_by_id P w email_id) = Inr \<lparr>status = py ''error'', message = str_exc e\<rparr>)
   \<and> (email_id \<noteq> [] \<and>
       fst (execute P (MessagesModify (py ''me'') email_id
              (JDict [(py ''addLabelIds'', JList [JStr (py ''TRASH'')])])) (mailbox w)) = Inl e \<longrightarrow>
       fst (delete_email_by_id P w email_id) = Inr \<lparr>status = py ''error'', message = str_exc e\<rparr>)
   \<and> (encode_message P recipient subject body = Inl e \<longrightarrow>
       fst (draft_email P w recipient subject body) = Inr \<lparr>status = py ''error'', message = str_exc e\<rparr>)
   \<and> (encode_message P recipient subject body = Inr raw \<and>
       fst (execute P (DraftsCreate (py ''me'')
              (JDict [(py ''message'', JDict [(py ''raw'', JStr raw)])])) (mailbox w)) = Inl e \<longrightarrow>
       fst (draft_email P w recipient subject body) = Inr \<lparr>status = py ''error'', message = str_exc e\<rparr>)
   \<and> (\<exists>r. fst (invoke P w tool) = Inr r)"
  using invoke_total [of P w tool]
  by (auto simp: tool_fst error_result_def)

theorem missing_or_rejected_id_is_error_witness:
  "fst (archive_email_by_id unreachable no_selection (py ''m1'')) =
     Inr \<lparr>status = py ''error'', message = py ''timed out''\<rparr>
   \<and> fst (delete_email_by_id unreachable no_selection (py ''m1'')) =
     Inr \<lparr>status = py ''error'', message = py ''timed out''\<rparr>
   \<and> fst (draft_email unreachable no_selection (py ''a@x.com'') (py ''Re'') (py ''ok'')) =
     Inr \<lparr>status = py ''error'', message = py ''timed out''\<rparr>
   \<and> fst (draft_email (plain_library\<lparr>encode_message := (\<lambda>r s b. Inl (OtherException (py ''bad header'')))\<rparr>)
          no_selection (py ''a@x.com'') (py ''Re'') (py ''ok'')) =
     Inr \<lparr>status = py ''error'', message = py ''bad header''\<rparr>"
proof -
  let ?e = "OtherException (py ''timed out'')"
  let ?B = "plain_library\<lparr>encode_message := (\<lambda>r s b. Inl (OtherException (py ''bad header'')))\<rparr>"
  have a: "py ''m1'' \<noteq> [] \<and>
       fst (execute unreachable (MessagesModify (py ''me'') (py ''m1'')
              (JDict [(py ''removeLabelIds'', JList [JStr (py ''INBOX'')])])) (mailbox no_selection)) = Inl ?e"
    by (simp add: ex_defs)
  have t: "py ''m1'' \<noteq> [] \<and>
       fst (execute unreachable (MessagesModify (py ''me'') (py ''m1'')
              (JDict [(py ''addLabelIds'', JList [JStr (py ''TRASH'')])])) (mailbox no_selection)) = Inl ?e"
    by (simp add: ex_defs)
  have d: "encode_message unreachable (py ''a@x.com'') (py ''Re'') (py ''ok'') = Inr (py ''a@x.comReok'') \<and>
       fst (execute unreachable (DraftsCreate (py ''me'')
              (JDict [(py ''message'', JDict [(py ''raw'', JStr (py ''a@x.comReok''))])])) (mailbox no_selection)) = Inl ?e"
    by (simp add: ex_defs)
  have b: "encode_message ?B (py ''a@x.com'') (py ''Re'') (py ''ok'') = Inl (OtherException (py ''bad header''))"
    by simp
  from missing_or_rejected_id_is_error [of unreachable no_selection "py ''m1''" ?e
      "py ''a@x.com''" "py ''Re''" "py ''ok''" "py ''a@x.comReok''" "Create_reminder [] []"] a t d
  have 1: "fst (archive_email_by_id unreachable no_selection (py ''m1'')) =
     Inr \<lparr>status = py ''error'', message = py ''timed out''\<rparr>
   \<and> fst (delete_email_by_id unreachable no_selection (py ''m1'')) =
     Inr \<lparr>status = py ''error'', message = py ''timed out''\<rparr>
   \<and> fst (draft_email unreachable no_selection (py ''a@x.com'') (py ''Re'') (py ''ok'')) =
     Inr \<lparr>status = py ''error'', message = py ''timed out''\<rparr>"
    by simp
  from missing_or_rejected_id_is_error [of ?B no_selection "py ''m1''" "OtherException (py ''bad header'')"
      "py ''a@x.com''" "py ''Re''" "py ''ok''" "[]" "Create_reminder [] []"] b
  have 2: "fst (draft_email ?B no_selection (py ''a@x.com'') (py ''Re'') (py ''ok'')) =
     Inr \<lparr>status = py ''error'', message = py ''bad header''\<rparr>"
    by simp
  from 1 2 show ?thesis by simp
qed

text \<open>
  Claim C7. For every task and date, \<open>create_reminder\<close> returns \<open>status = success\<close> with the
  message "Reminder set: <task> on <date>" after the alarm clock sign; it has no other
  outcome, it leaves the world as it was, and a gateway that records its requests sees none.
\<close>

theorem create_reminder_always_succeeds:
  "create_reminder task date =
     Inr \<lparr>status = py ''success'',
          message = [9200] @ py '' Reminder set: '' @ task @ py '' on '' @ date\<rparr>
   \<and> snd (invoke P w (Create_reminder task date)) = w
   \<and> mailbox (snd (invoke (recording answer L) v (Create_reminder task date))) = mailbox v"
  by (simp add: create_reminder_def)


lemma invoke_frame:
  "fst (invoke P (w\<lparr>CURRENT_EMAIL_ID := c\<rparr>) tool) = fst (invoke P w tool) \<and>
   mailbox (snd (invoke P (w\<lparr>CURRENT_EMAIL_ID := c\<rparr>) tool)) = mailbox (snd (invoke P w tool))"
  by (cases tool) (auto simp: tool_fst tool_snd split: sum.splits)

text \<open>
  Claim C9. No action tool reads \<open>CURRENT_EMAIL_ID\<close>: two runs of a tool with the same
  arguments and the same gateway, in worlds that agree on the mailbox and may differ in
  \<open>CURRENT_EMAIL_ID\<close>, return the same result and leave the same mailbox.
\<close>

theorem tools_ignore_current_email_id:
  "mailbox w1 = mailbox w2 \<Longrightarrow>
     fst (invoke P w1 tool) = fst (invoke P w2 tool) \<and>
     mailbox (snd (invoke P w1 tool)) = mailbox (snd (invoke P w2 tool))"
proof -
  assume "mailbox w1 = mailbox w2"
  then have "w1 = w2\<lparr>CURRENT_EMAIL_ID := CURRENT_EMAIL_ID w1\<rparr>"
    by (cases w1, cases w2) simp
  then show ?thesis using invoke_frame [of P "CURRENT_EMAIL_ID w1" w2 tool] by simp
qed

theorem tools_ignore_current_email_id_witness:
  "fst (invoke unreachable no_selection (Archive_email_by_id (py ''m1''))) =
   fst (invoke unreachable other_selection (Archive_email_by_id (py ''m1'')))
   \<and> CURRENT_EMAIL_ID no_selection \<noteq> CURRENT_EMAIL_ID other_selection"
proof -
  have h: "mailbox no_selection = mailbox other_selection"
    by (simp add: no_selection_def other_selection_def)
  from tools_ignore_current_email_id [OF h, of unreachable "Archive_email_by_id (py ''m1'')"]
  show ?thesis by (simp add: no_selection_def other_selection_def)
qed


section \<open>Archive and delete as label changes\<close>

lemma label_list_remove_inbox:
  "label_list (JDict [(py ''removeLabelIds'', JList [JStr (py ''INBOX'')])]) (py ''removeLabelIds'') = [py ''INBOX'']
   \<and> label_list (JDict [(py ''removeLabelIds'', JList [JStr (py ''INBOX'')])]) (py ''addLabelIds'') = []"
  by (simp add: label_list_def py_def)

lemma label_list_add_trash:
  "label_list (JDict [(py ''addLabelIds'', JList [JStr (py ''TRASH'')])]) (py ''addLabelIds'') = [py ''TRASH'']
   \<and> label_list (JDict [(py ''addLabelIds'', JList [JStr (py ''TRASH'')])]) (py ''removeLabelIds'') = []"
  by (simp add: label_list_def py_def)

lemma execute_recording: "execute (recording answer L) rq log = (answer rq, log @ [rq])"
  by (simp add: recording_def)

lemma execute_label_gateway_modify:
  "execute (label_gateway L) (MessagesModify u i body) mb =
     relabel i (label_list body (py ''addLabelIds'')) (label_list body (py ''removeLabelIds'')) mb"
  by (simp add: label_gateway_def)

lemma relabel_known:
  "mb i = Some m \<Longrightarrow>
     snd (relabel i add remove mb) = mb(i \<mapsto> m\<lparr>labelIds := (labelIds m - set remove) \<union> set add\<rparr>)"
  by (simp add: relabel_def)

lemma relabel_restores:
  "mb i = Some m \<Longrightarrow> (L - set remove) \<union> set add = labelIds m \<Longrightarrow>
     snd (relabel i add remove (mb(i \<mapsto> m\<lparr>labelIds := L\<rparr>))) = mb"
  by (simp add: relabel_def fun_upd_idem)

lemma archive_reversible:
  assumes "mb i = Some m"
  shows "\<exists>add remove. snd (relabel i add remove (mb(i \<mapsto> m\<lparr>labelIds := labelIds m - {x}\<rparr>))) = mb"
proof (cases "x \<in> labelIds m")
  case True
  then have "(labelIds m - {x} - set []) \<union> set [x] = labelIds m" by auto
  with assms have "snd (relabel i [x] [] (mb(i \<mapsto> m\<lparr>labelIds := labelIds m - {x}\<rparr>))) = mb"
    by (rule relabel_restores)
  then show ?thesis by blast
next
  case False
  then have "(labelIds m - {x} - set []) \<union> set [] = labelIds m" by auto
  with assms have "snd (relabel i [] [] (mb(i \<mapsto> m\<lparr>labelIds := labelIds m - {x}\<rparr>))) = mb"
    by (rule relabel_restores)
  then show ?thesis by blast
qed

lemma delete_reversible:
  assumes "mb i = Some m"
  shows "\<exists>add remove. snd (relabel i add remove (mb(i \<mapsto> m\<lparr>labelIds := labelIds m \<union> {x}\<rparr>))) = mb"
proof (cases "x \<in> labelIds m")
  case True
  then have "(labelIds m \<union> {x} - set []) \<union> set [] = labelIds m" by auto
  with assms have "snd (relabel i [] [] (mb(i \<mapsto> m\<lparr>labelIds := labelIds m \<union> {x}\<rparr>))) = mb"
    by (rule relabel_restores)
  then show ?thesis by blast
next
  case False
  then have "(labelIds m \<union> {x} - set [x]) \<union> set [] = labelIds m" by auto
  with assms have "snd (relabel i [] [x] (mb(i \<mapsto> m\<lparr>labelIds := labelIds m \<union> {x}\<rparr>))) = mb"
    by (rule relabel_restores)
  then show ?thesis by blast
qed

text \<open>
  Claim C5. With a non-empty id, \<open>archive_email_by_id\<close> sends the gateway exactly one
  request, a \<open>modify\<close> that removes the label \<open>INBOX\<close>, and \<open>delete_email_by_id\<close> exactly
  one, a \<open>modify\<close> that adds the label \<open>TRASH\<close>: a gateway that records its requests holds
  that one request more, whatever it answers. On a mailbox of labelled messages the message
  stays, with its content, and only its label set changes (\<open>INBOX\<close> removed, or \<open>TRASH\<close>
  added); and a further relabelling brings the mailbox back to what it was.
\<close>

theorem archive_and_delete_only_relabel:
  "(email_id \<noteq> [] \<longrightarrow>
      mailbox (snd (archive_email_by_id (recording answer L) v email_id)) =
        mailbox v @ [MessagesModify (py ''me'') email_id
                       (JDict [(py ''removeLabelIds'', JList [JStr (py ''INBOX'')])])]
    \<and> mailbox (snd (delete_email_by_id (recording answer L) v email_id)) =
        mailbox v @ [MessagesModify (py ''me'') email_id
                       (JDict [(py ''addLabelIds'', JList [JStr (py ''TRASH'')])])])
   \<and> (email_id \<noteq> [] \<and> mb email_id = Some m \<longrightarrow>
      mailbox (snd (archive_email_by_id (label_gateway L) \<lparr>mailbox = mb, CURRENT_EMAIL_ID = c\<rparr> email_id)) =
        mb(email_id \<mapsto> m\<lparr>labelIds := labelIds m - {py ''INBOX''}\<rparr>)
    \<and> mailbox (snd (delete_email_by_id (label_gateway L) \<lparr>mailbox = mb, CURRENT_EMAIL_ID = c\<rparr> email_id)) =
        mb(email_id \<mapsto> m\<lparr>labelIds := labelIds m \<union> {py ''TRASH''}\<rparr>)
    \<and> (\<exists>add remove. snd (relabel email_id add remove
           (mb(email_id \<mapsto> m\<lparr>labelIds := labelIds m - {py ''INBOX''}\<rparr>))) = mb)
    \<and> (\<exists>add remove. snd (relabel email_id add remove
           (mb(email_id \<mapsto> m\<lparr>labelIds := labelIds m \<union> {py ''TRASH''}\<rparr>))) = mb))"
proof (intro conjI impI)
  assume "email_id \<noteq> []"
  then show "mailbox (snd (archive_email_by_id (recording answer L) v email_id)) =
        mailbox v @ [MessagesModify (py ''me'') email_id
                       (JDict [(py ''removeLabelIds'', JList [JStr (py ''INBOX'')])])]"
    by (simp add: archive_email_by_id_def except_Exception_snd archive_try_snd execute_recording)
next
  assume "email_id \<noteq> []"
  then show "mailbox (snd (delete_email_by_id (recording answer L) v email_id)) =
        mailbox v @ [MessagesModify (py ''me'') email_id
                       (JDict [(py ''addLabelIds'', JList [JStr (py ''TRASH'')])])]"
    by (simp add: delete_email_by_id_def except_Exception_snd delete_try_snd execute_recording)
next
  assume "email_id \<noteq> [] \<and> mb email_id = Some m"
  then show "mailbox (snd (archive_email_by_id (label_gateway L) \<lparr>mailbox = mb, CURRENT_EMAIL_ID = c\<rparr> email_id)) =
        mb(email_id \<mapsto> m\<lparr>labelIds := labelIds m - {py ''INBOX''}\<rparr>)"
    by (simp add: archive_email_by_id_def except_Exception_snd archive_try_snd
        execute_label_gateway_modify label_list_remove_inbox relabel_known)
next
  assume "email_id \<noteq> [] \<and> mb email_id = Some m"
  then show "mailbox (snd (delete_email_by_id (label_gateway L) \<lparr>mailbox = mb, CURRENT_EMAIL_ID = c\<rparr> email_id)) =
        mb(email_id \<mapsto> m\<lparr>labelIds := labelIds m \<union> {py ''TRASH''}\<rparr>)"
    by (simp add: delete_email_by_id_def except_Exception_snd delete_try_snd
        execute_label_gateway_modify label_list_add_trash relabel_known)
next
  assume "email_id \<noteq> [] \<and> mb email_id = Some m"
  then show "\<exists>add remove. snd (relabel email_id add remove
           (mb(email_id \<mapsto> m\<lparr>labelIds := labelIds m - {py ''INBOX''}\<rparr>))) = mb"
    using archive_reversible by blast
next
  assume "email_id \<noteq> [] \<and> mb email_id = Some m"
  then show "\<exists>add remove. snd (relabel email_id add remove
           (mb(email_id \<mapsto> m\<lparr>labelIds := labelIds m \<union> {py ''TRASH''}\<rparr>))) = mb"
    using delete_reversible by blast
qed

text \<open>
  The message \<open>m1\<close> of the small mailbox, archived and deleted: one request each, and the
  labels \<open>UNREAD\<close>, or \<open>INBOX\<close>, \<open>UNREAD\<close> and \<open>TRASH\<close>, afterwards.
\<close>

theorem archive_and_delete_only_relabel_witness:
  "mailbox (snd (archive_email_by_id (recording (\<lambda>rq. Inr JNone) plain_library)
       \<lparr>mailbox = [], CURRENT_EMAIL_ID = None\<rparr> (py ''m1''))) =
     [MessagesModify (py ''me'') (py ''m1'') (JDict [(py ''removeLabelIds'', JList [JStr (py ''INBOX'')])])]
   \<and> mailbox (snd (delete_email_by_id (recording (\<lambda>rq. Inr JNone) plain_library)
       \<lparr>mailbox = [], CURRENT_EMAIL_ID = None\<rparr> (py ''m1''))) =
     [MessagesModify (py ''me'') (py ''m1'') (JDict [(py ''addLabelIds'', JList [JStr (py ''TRASH'')])])]
   \<and> mailbox (snd (archive_email_by_id (label_gateway plain_library)
       \<lparr>mailbox = small_mailbox, CURRENT_EMAIL_ID = None\<rparr> (py ''m1''))) =
     small_mailbox(py ''m1'' \<mapsto> \<lparr>labelIds = {py ''UNREAD''}, content = JStr (py ''hello'')\<rparr>)
   \<and> mailbox (snd (delete_email_by_id (label_gateway plain_library)
       \<lparr>mailbox = small_mailbox, CURRENT_EMAIL_ID = None\<rparr> (py ''m1''))) =
     small_mailbox(py ''m1'' \<mapsto>
       \<lparr>labelIds = {py ''INBOX'', py ''UNREAD'', py ''TRASH''}, content = JStr (py ''hello'')\<rparr>)"
proof -
  have h: "py ''m1'' \<noteq> []" by (simp add: py_def)
  have k: "py ''m1'' \<noteq> [] \<and> small_mailbox (py ''m1'') = Some one_message"
    by (simp add: small_mailbox_def py_def)
  have l1: "labelIds one_message - {py ''INBOX''} = {py ''UNREAD''}"
    by (auto simp: one_message_def py_def)
  have l2: "insert (py ''TRASH'') (labelIds one_message) = {py ''INBOX'', py ''UNREAD'', py ''TRASH''}"
    by (auto simp: one_message_def)
  have c: "content one_message = JStr (py ''hello'')" by (simp add: one_message_def)
  have r: "\<And>X. one_message\<lparr>labelIds := X\<rparr> = \<lparr>labelIds = X, content = JStr (py ''hello'')\<rparr>"
    by (simp add: one_message_def)
  from archive_and_delete_only_relabel [of "py ''m1''" "\<lambda>rq. Inr JNone" plain_library
      "\<lparr>mailbox = [], CURRENT_EMAIL_ID = None\<rparr>" small_mailbox one_message None] h k
  show ?thesis by (simp add: l1 l2 r)
qed

section \<open>Reading the body never raises\<close>

lemma get_email_body_try_fst:
  "fst (get_email_body_try P w msg_id) =
     (case fst (execute P (MessagesGet (py ''me'') msg_id (py ''full'')) (mailbox w)) of
        Inl e \<Rightarrow> Inl e
      | Inr msg \<Rightarrow>
          and_then (subscript msg (py ''payload'')) (\<lambda>payload.
          and_then (select_data payload) (\<lambda>data.
            if truthy data
            then and_then (decode_data P data) (\<lambda>text.
                 and_then (get_text P text) (\<lambda>soup_text. Inr (Some (strip soup_text))))
            else Inr None)))"
  by (simp add: get_email_body_try_def call_eq split: sum.splits)

lemma get_email_body_fst:
  "fst (get_email_body P w msg_id) =
     (case fst (get_email_body_try P w msg_id) of
        Inl e \<Rightarrow> Inr (py ''Error reading email body: '' @ str_exc e)
      | Inr None \<Rightarrow> Inr (py ''(No readable content found)'')
      | Inr (Some text) \<Rightarrow> Inr text)"
  by (cases "get_email_body_try P w msg_id")
     (simp add: get_email_body_def split: sum.splits option.splits)

lemma placeholders_differ:
  "py ''Error reading email body: '' @ x \<noteq> py ''(No readable content found)''"
  by (simp add: py_def)

text \<open>
  Claim C8. \<open>get_email_body\<close> never raises, for any message id and any behaviour of the
  gateway and the libraries: an exception \<open>e\<close> of its \<open>try\<close> block, a failure of the gateway
  among them, comes back as the text "Error reading email body: " followed by \<open>str(e)\<close>; a
  message whose selected data is empty or absent comes back as "(No readable content
  found)"; and the two placeholders are never the same text.
\<close>

theorem get_email_body_never_raises:
  "(\<exists>t. fst (get_email_body P w msg_id) = Inr t)
   \<and> (fst (get_email_body_try P w msg_id) = Inl e \<longrightarrow>
        fst (get_email_body P w msg_id) = Inr (py ''Error reading email body: '' @ str_exc e))
   \<and> (fst (execute P (MessagesGet (py ''me'') msg_id (py ''full'')) (mailbox w)) = Inl e \<longrightarrow>
        fst (get_email_body P w msg_id) = Inr (py ''Error reading email body: '' @ str_exc e))
   \<and> (fst (execute P (MessagesGet (py ''me'') msg_id (py ''full'')) (mailbox w)) = Inr msg \<and>
       subscript msg (py ''payload'') = Inr payload \<and> select_data payload = Inr data \<and>
       \<not> truthy data \<longrightarrow>
        fst (get_email_body P w msg_id) = Inr (py ''(No readable content found)''))
   \<and> py ''Error reading email body: '' @ x \<noteq> py ''(No readable content found)''"
proof (intro conjI impI)
  show "\<exists>t. fst (get_email_body P w msg_id) = Inr t"
    by (simp add: get_email_body_fst split: sum.splits option.splits)
next
  assume "fst (get_email_body_try P w msg_id) = Inl e"
  then show "fst (get_email_body P w msg_id) = Inr (py ''Error reading email body: '' @ str_exc e)"
    by (simp add: get_email_body_fst)
next
  assume "fst (execute P (MessagesGet (py ''me'') msg_id (py ''full'')) (mailbox w)) = Inl e"
  then show "fst (get_email_body P w msg_id) = Inr (py ''Error reading email body: '' @ str_exc e)"
    by (simp add: get_email_body_fst get_email_body_try_fst)
next
  assume "fst (execute P (MessagesGet (py ''me'') msg_id (py ''full'')) (mailbox w)) = Inr msg \<and>
       subscript msg (py ''payload'') = Inr payload \<and> select_data payload = Inr data \<and>
       \<not> truthy data"
  then show "fst (get_email_body P w msg_id) = Inr (py ''(No readable content found)'')"
    by (simp add: get_email_body_fst get_email_body_try_fst and_then_def)
next
  show "py ''Error reading email body: '' @ x \<noteq> py ''(No readable content found)''"
    by (rule placeholders_differ)
qed

lemma select_empty_message:
  "select_data (JDict [(py ''body'', JDict [(py ''data'', JStr [])])]) = Inr (JStr [])"
  by (simp add: select_data_def body_data_def and_then_def py_def)

text \<open>An unreachable gateway, and a message whose only body data is the empty string.\<close>

theorem get_email_body_never_raises_witness:
  "fst (get_email_body unreachable no_selection (py ''m1'')) =
     Inr (py ''Error reading email body: timed out'')
   \<and> fst (get_email_body (answering empty_message) no_selection (py ''m1'')) =
     Inr (py ''(No readable content found)'')"
proof -
  let ?e = "OtherException (py ''timed out'')"
  let ?rq = "MessagesGet (py ''me'') (py ''m1'') (py ''full'')"
  let ?pl = "JDict [(py ''body'', JDict [(py ''data'', JStr [])])]"
  have a: "fst (execute unreachable ?rq (mailbox no_selection)) = Inl ?e"
    by (simp add: unreachable_def)
  have t: "fst (get_email_body_try unreachable no_selection (py ''m1'')) = Inl ?e"
    by (simp add: get_email_body_try_fst unreachable_def)
  have b: "fst (execute (answering empty_message) ?rq (mailbox no_selection)) = Inr empty_message \<and>
       subscript empty_message (py ''payload'') = Inr ?pl \<and> select_data ?pl = Inr (JStr []) \<and>
       \<not> truthy (JStr [])"
    using select_empty_message by (simp add: answering_def empty_message_def py_def)
  from get_email_body_never_raises [of unreachable no_selection "py ''m1''" ?e JNone JNone JNone "[]"] a t
  have 1: "fst (get_email_body unreachable no_selection (py ''m1'')) =
     Inr (py ''Error reading email body: '' @ str_exc ?e)"
    by blast
  from get_email_body_never_raises [of "answering empty_message" no_selection "py ''m1''" ?e
      empty_message ?pl "JStr []" "[]"] b
  have 2: "fst (get_email_body (answering empty_message) no_selection (py ''m1'')) =
     Inr (py ''(No readable content found)'')"
    by blast
  from 1 2 show ?thesis by (simp add: py_def)
qed

section \<open>Which part is decoded\<close>

lemma find_part_data_find:
  "list_all typed_part ps \<Longrightarrow>
     find_part_data mime ps data =
       (case List.find (has_mime mime) ps of Some p \<Rightarrow> body_data p | None \<Rightarrow> Inr data)"
proof (induction ps)
  case Nil
  then show ?case by simp
next
  case (Cons p ps)
  then show ?case
    by (auto simp: typed_part_def has_mime_def split: sum.splits)
qed

lemma select_data_parts:
  "dict_get payload (py ''parts'') = Inr (JList ps) \<Longrightarrow> ps \<noteq> [] \<Longrightarrow> list_all typed_part ps \<Longrightarrow>
     select_data payload =
       (case List.find (has_mime (py ''text/plain'')) ps of
          Some p \<Rightarrow>
            and_then (body_data p) (\<lambda>d.
              if truthy d then Inr d
              else (case List.find (has_mime (py ''text/html'')) ps of
                      Some h \<Rightarrow> body_data h | None \<Rightarrow> Inr d))
        | None \<Rightarrow>
            (case List.find (has_mime (py ''text/html'')) ps of
               Some h \<Rightarrow> body_data h | None \<Rightarrow> Inr JNone))"
  by (simp add: select_data_def and_then_def find_part_data_find split: option.splits sum.splits)

text \<open>
  Claim C10, as amended. When the payload has parts, each with a \<open>mimeType\<close>,
  \<open>get_email_body\<close> selects the data of the first \<open>text/plain\<close> part when that data is not
  empty; it selects the data of the first \<open>text/html\<close> part when there is no \<open>text/plain\<close>
  part, and also when the first \<open>text/plain\<close> part has empty data (with no \<open>text/html\<close> part
  the data stays as it was, empty or \<open>None\<close>); for a payload without parts it selects the
  top-level \<open>body.data\<close>.
\<close>

theorem select_data_preference:
  "(dict_get payload (py ''parts'') = Inr (JList ps) \<and> ps \<noteq> [] \<and> list_all typed_part ps \<longrightarrow>
      (List.find (has_mime (py ''text/plain'')) ps = Some p \<and> body_data p = Inr d \<and> truthy d \<longrightarrow>
         select_data payload = Inr d)
    \<and> (List.find (has_mime (py ''text/plain'')) ps = Some p \<and> body_data p = Inr d \<and> \<not> truthy d \<longrightarrow>
         select_data payload =
           (case List.find (has_mime (py ''text/html'')) ps of
              Some h \<Rightarrow> body_data h | None \<Rightarrow> Inr d))
    \<and> (List.find (has_mime (py ''text/plain'')) ps = None \<longrightarrow>
         select_data payload =
           (case List.find (has_mime (py ''text/html'')) ps of
              Some h \<Rightarrow> body_data h | None \<Rightarrow> Inr JNone)))
   \<and> (dict_get payload (py ''parts'') = Inr parts \<and> \<not> truthy parts \<longrightarrow>
        select_data payload = body_data payload)"
proof (intro conjI impI)
  assume "dict_get payload (py ''parts'') = Inr parts \<and> \<not> truthy parts"
  then show "select_data payload = body_data payload"
    by (simp add: select_data_def and_then_def)
next
  assume a: "dict_get payload (py ''parts'') = Inr (JList ps) \<and> ps \<noteq> [] \<and> list_all typed_part ps"
    and b: "List.find (has_mime (py ''text/plain'')) ps = Some p \<and> body_data p = Inr d \<and> truthy d"
  from a have "dict_get payload (py ''parts'') = Inr (JList ps)" "ps \<noteq> []" "list_all typed_part ps"
    by simp_all
  from select_data_parts [OF this] b show "select_data payload = Inr d" by (simp add: and_then_def)
next
  assume a: "dict_get payload (py ''parts'') = Inr (JList ps) \<and> ps \<noteq> [] \<and> list_all typed_part ps"
    and b: "List.find (has_mime (py ''text/plain'')) ps = Some p \<and> body_data p = Inr d \<and> \<not> truthy d"
  from a have "dict_get payload (py ''parts'') = Inr (JList ps)" "ps \<noteq> []" "list_all typed_part ps"
    by simp_all
  from select_data_parts [OF this] b show "select_data payload =
           (case List.find (has_mime (py ''text/html'')) ps of
              Some h \<Rightarrow> body_data h | None \<Rightarrow> Inr d)" by (simp add: and_then_def)
next
  assume a: "dict_get payload (py ''parts'') = Inr (JList ps) \<and> ps \<noteq> [] \<and> list_all typed_part ps"
    and b: "List.find (has_mime (py ''text/plain'')) ps = None"
  from a have "dict_get payload (py ''parts'') = Inr (JList ps)" "ps \<noteq> []" "list_all typed_part ps"
    by simp_all
  from select_data_parts [OF this] b show "select_data payload =
           (case List.find (has_mime (py ''text/html'')) ps of
              Some h \<Rightarrow> body_data h | None \<Rightarrow> Inr JNone)" by simp
qed

lemmas part_defs = plain_part_empty_def html_part_def plain_part_def has_mime_def typed_part_def
  body_data_def and_then_def py_def

text \<open>
  Claim C10 as stated fails: the parts of \<open>mixed_payload\<close> hold a \<open>text/plain\<close> part, whose
  data is the empty string, and yet the data selected for decoding is that of the
  \<open>text/html\<close> part.
\<close>

theorem html_chosen_despite_plain_part:
  "List.find (has_mime (py ''text/plain'')) [plain_part_empty, html_part] = Some plain_part_empty
   \<and> body_data plain_part_empty = Inr (JStr [])
   \<and> select_data mixed_payload = Inr (JStr (py ''PGI-aGk8L2I-''))
   \<and> \<not> prefers_plain mixed_payload"
  by (simp add: prefers_plain_def mixed_payload_def select_data_def part_defs)

text \<open>
  The four cases on the example payloads: a plain part with data after an HTML part, a plain
  part with empty data before one, an HTML part alone, and a message without parts.
\<close>

theorem select_data_preference_witness:
  "select_data html_first_payload = Inr (JStr (py ''aGk-''))
   \<and> select_data mixed_payload = Inr (JStr (py ''PGI-aGk8L2I-''))
   \<and> select_data html_only_payload = Inr (JStr (py ''PGI-aGk8L2I-''))
   \<and> select_data simple_payload = Inr (JStr (py ''aGk-''))"
proof -
  have a1: "dict_get html_first_payload (py ''parts'') = Inr (JList [html_part, plain_part]) \<and>
        [html_part, plain_part] \<noteq> [] \<and> list_all typed_part [html_part, plain_part]"
    by (simp add: html_first_payload_def part_defs)
  have b1: "List.find (has_mime (py ''text/plain'')) [html_part, plain_part] = Some plain_part \<and>
        body_data plain_part = Inr (JStr (py ''aGk-'')) \<and> truthy (JStr (py ''aGk-''))"
    by (simp add: part_defs)
  from select_data_preference [where payload = html_first_payload and ps = "[html_part, plain_part]"
      and p = plain_part and d = "JStr (py ''aGk-'')"] a1 b1
  have 1: "select_data html_first_payload = Inr (JStr (py ''aGk-''))" by blast
  have a2: "dict_get mixed_payload (py ''parts'') = Inr (JList [plain_part_empty, html_part]) \<and>
        [plain_part_empty, html_part] \<noteq> [] \<and> list_all typed_part [plain_part_empty, html_part]"
    by (simp add: mixed_payload_def part_defs)
  have b2: "List.find (has_mime (py ''text/plain'')) [plain_part_empty, html_part] = Some plain_part_empty \<and>
        body_data plain_part_empty = Inr (JStr []) \<and> \<not> truthy (JStr [])"
    by (simp add: part_defs)
  have c2: "(case List.find (has_mime (py ''text/html'')) [plain_part_empty, html_part] of
              Some h \<Rightarrow> body_data h | None \<Rightarrow> Inr (JStr [])) = Inr (JStr (py ''PGI-aGk8L2I-''))"
    by (simp add: part_defs)
  from select_data_preference [where payload = mixed_payload and ps = "[plain_part_empty, html_part]"
      and p = plain_part_empty and d = "JStr []"] a2 b2
  have "select_data mixed_payload =
          (case List.find (has_mime (py ''text/html'')) [plain_part_empty, html_part] of
              Some h \<Rightarrow> body_data h | None \<Rightarrow> Inr (JStr []))" by blast
  with c2 have 2: "select_data mixed_payload = Inr (JStr (py ''PGI-aGk8L2I-''))" by simp
  have a3: "dict_get html_only_payload (py ''parts'') = Inr (JList [html_part]) \<and>
        [html_part] \<noteq> [] \<and> list_all typed_part [html_part]"
    by (simp add: html_only_payload_def part_defs)
  have b3: "List.find (has_mime (py ''text/plain'')) [html_part] = None"
    by (simp add: part_defs)
  have c3: "(case List.find (has_mime (py ''text/html'')) [html_part] of
              Some h \<Rightarrow> body_data h | None \<Rightarrow> Inr JNone) = Inr (JStr (py ''PGI-aGk8L2I-''))"
    by (simp add: part_defs)
  from select_data_preference [where payload = html_only_payload and ps = "[html_part]"] a3 b3
  have "select_data html_only_payload =
          (case List.find (has_mime (py ''text/html'')) [html_part] of
              Some h \<Rightarrow> body_data h | None \<Rightarrow> Inr JNone)" by blast
  with c3 have 3: "select_data html_only_payload = Inr (JStr (py ''PGI-aGk8L2I-''))" by simp
  have a4: "dict_get simple_payload (py ''parts'') = Inr JNone \<and> \<not> truthy JNone"
    by (simp add: simple_payload_def py_def)
  have c4: "body_data simple_payload = Inr (JStr (py ''aGk-''))"
    by (simp add: simple_payload_def body_data_def and_then_def py_def)
  from select_data_preference [where payload = simple_payload and parts = JNone] a4
  have "select_data simple_payload = body_data simple_payload" by blast
  with c4 have 4: "select_data simple_payload = Inr (JStr (py ''aGk-''))" by simp
  from 1 2 3 4 show ?thesis by simp
qed

section \<open>Trimming is idempotent\<close>

lemma dropWhile_rev_dropWhile:
  "dropWhile P (rev (dropWhile P (rev (dropWhile P s)))) = rev (dropWhile P (rev (dropWhile P s)))"
proof (cases "dropWhile P (rev (dropWhile P s)) = []")
  case True
  show ?thesis by (simp only: True rev.simps dropWhile.simps)
next
  case False
  let ?a = "dropWhile P s"
  let ?b = "dropWhile P (rev ?a)"
  have a: "?a \<noteq> []"
  proof
    assume e: "?a = []"
    have "?b = []" by (simp only: e rev.simps dropWhile.simps)
    with False show False by contradiction
  qed
  have "rev ?a = takeWhile P (rev ?a) @ ?b" by simp
  then have "last (rev ?a) = last ?b" using False by (metis last_appendR)
  then have "last ?b = hd ?a" using a by (simp add: last_rev)
  moreover have "\<not> P (hd ?a)" using a by (rule hd_dropWhile)
  ultimately have "\<not> P (hd (rev ?b))" using False by (simp add: hd_rev)
  then show ?thesis using False by (cases "rev ?b") auto
qed

lemma strip_strip: "strip (strip s) = strip s"
  by (simp add: strip_def dropWhile_rev_dropWhile)

section \<open>The event loop\<close>

lemma texts_Cons:
  "texts (ev # evs) = (case event_text ev of None \<Rightarrow> texts evs | Some t \<Rightarrow> t # texts evs)"
  by (simp add: texts_def split: option.splits)

lemma texts_Nil: "texts [] = []"
  by (simp add: texts_def)

lemma texts_append: "texts (xs @ ys) = texts xs @ texts ys"
  by (simp add: texts_def List.map_filter_def)

lemma potential_display:
  "potential_agent_messages (display_tool_calls ev st) = potential_agent_messages st"
  by (simp add: display_tool_calls_def split: option.splits)

lemma potential_capture:
  "potential_agent_messages (capture_message ev st) =
     potential_agent_messages st @
       (case event_text ev of None \<Rightarrow> [] | Some t \<Rightarrow> if strip t \<noteq> [] then [strip t] else [])"
  by (simp add: capture_message_def event_text_def split: option.splits)

lemma event_loop_potential:
  "potential_agent_messages (event_loop evs st) =
     potential_agent_messages st @ filter (\<lambda>m. m \<noteq> []) (map strip (texts evs))"
proof (induction evs arbitrary: st)
  case Nil
  then show ?case by (simp add: texts_Nil)
next
  case (Cons ev evs)
  show ?case
    by (simp add: Cons.IH potential_capture potential_display texts_Cons split: option.splits)
qed

lemma action_capture: "action_taken (capture_message ev st) = action_taken st"
  by (simp add: capture_message_def split: option.splits)

lemma echoed_capture: "echoed (capture_message ev st) = echoed st"
  by (simp add: capture_message_def split: option.splits)

lemma action_display:
  "action_taken (display_tool_calls ev st) = (action_taken st \<or> has_tool_calls ev)"
  by (simp add: display_tool_calls_def has_tool_calls_def split: option.splits)

lemma echoed_display:
  "\<not> has_tool_calls ev \<Longrightarrow> echoed (display_tool_calls ev st) = echoed st"
  by (simp add: display_tool_calls_def has_tool_calls_def split: option.splits)

lemma event_loop_action:
  "action_taken (event_loop evs st) = (action_taken st \<or> list_ex has_tool_calls evs)"
  by (induction evs arbitrary: st) (auto simp: action_capture action_display)

lemma event_loop_echoed:
  "\<not> list_ex has_tool_calls evs \<Longrightarrow> echoed (event_loop evs st) = echoed st"
  by (induction evs arbitrary: st) (auto simp: echoed_capture echoed_display)

section \<open>Picking the dialogue\<close>

lemma pick_dialogue_filter:
  "pick_dialogue ms d =
     (case filter (\<lambda>m. \<not> startswith m (py ''tool_code:'') \<and> \<not> startswith m (py ''print('') \<and>
                        strip m \<noteq> []) ms of
        [] \<Rightarrow> d | m # rest \<Rightarrow> m)"
  by (induction ms) simp_all

lemma filter_stripped:
  "filter (\<lambda>m. m \<noteq> [] \<and> \<not> startswith m (py ''tool_code:'') \<and> \<not> startswith m (py ''print('') \<and>
                strip m \<noteq> [])
     (map strip ts) = filter qualifies (map strip ts)"
  by (induction ts) (auto simp: qualifies_def strip_strip)

lemma first_agent_dialogue_filter:
  "first_agent_dialogue evs =
     (case filter qualifies (map strip (texts evs)) of [] \<Rightarrow> [] | m # rest \<Rightarrow> m)"
  by (simp add: first_agent_dialogue_def scan_def event_loop_potential pick_dialogue_filter
      filter_stripped)

section \<open>The final report\<close>

text \<open>
  The extraction by itself (lines 283-309): it takes the texts of the textual events in
  production order, trims them, discards those that are empty or start with \<open>tool_code:\<close> or
  \<open>print(\<close>, and keeps the first that remains, the empty string when none remains. And the
  report lines by themselves (lines 324-328): for that result they show the fallback message
  "Look at the terminal for the output" exactly when none remains. Whether the handler
  reaches the report lines is another matter, settled below.
\<close>

lemma report_extraction_rule:
  "first_agent_dialogue evs =
     (case filter qualifies (map strip (texts evs)) of [] \<Rightarrow> [] | m # rest \<Rightarrow> m)
   \<and> agent_final_report (first_agent_dialogue evs) =
     (case filter qualifies (map strip (texts evs)) of
        [] \<Rightarrow> Info (py ''Look at the terminal for the output'')
      | m # rest \<Rightarrow> Success m)"
proof (cases "filter qualifies (map strip (texts evs))")
  case Nil
  then show ?thesis by (simp add: first_agent_dialogue_filter agent_final_report_def)
next
  case (Cons m rest)
  then have "m \<in> set (filter qualifies (map strip (texts evs)))" by simp
  then have "m \<noteq> []" by (simp add: qualifies_def)
  with Cons show ?thesis by (simp add: first_agent_dialogue_filter agent_final_report_def)
qed

lemma candidates_Cons:
  "filter qualifies (map strip (texts (ev # evs))) =
     (if candidate ev then [the (stripped_text ev)] else []) @ filter qualifies (map strip (texts evs))"
  by (auto simp: texts_Cons candidate_def stripped_text_def split: option.splits)

lemma no_candidates:
  "\<not> list_ex candidate evs \<Longrightarrow> filter qualifies (map strip (texts evs)) = []"
  by (induction evs) (simp_all add: texts_Nil candidates_Cons)

lemma some_candidate:
  "list_ex candidate evs \<Longrightarrow> filter qualifies (map strip (texts evs)) \<noteq> []"
  by (induction evs) (auto simp: candidates_Cons)

lemma first_candidate_split:
  assumes "list_ex candidate evs"
  shows "\<exists>pre ev post. evs = pre @ ev # post \<and> \<not> list_ex candidate pre \<and> candidate ev \<and>
           stripped_text ev = Some (first_agent_dialogue evs)"
proof -
  from assms have "\<exists>x\<in>set evs. candidate x" by (simp add: list_ex_iff)
  from split_list_first_prop [OF this]
  obtain pre ev post where s: "evs = pre @ ev # post" and c: "candidate ev"
    and n: "\<forall>y\<in>set pre. \<not> candidate y"
    by blast
  from n have np: "\<not> list_ex candidate pre" by (simp add: list_ex_iff)
  from c obtain m where m: "stripped_text ev = Some m" by (auto simp: candidate_def split: option.splits)
  have "filter qualifies (map strip (texts evs)) =
          filter qualifies (map strip (texts pre)) @ filter qualifies (map strip (texts (ev # post)))"
    by (simp add: s texts_append)
  also have "\<dots> = m # filter qualifies (map strip (texts post))"
    using np c m by (simp add: no_candidates candidates_Cons)
  finally have "first_agent_dialogue evs = m" by (simp add: first_agent_dialogue_filter)
  with s np c m show ?thesis by blast
qed

lemma report_nonempty_iff: "(first_agent_dialogue evs \<noteq> []) = list_ex candidate evs"
proof (cases "list_ex candidate evs")
  case True
  from first_candidate_split [OF True] obtain ev where "candidate ev"
    "stripped_text ev = Some (first_agent_dialogue evs)" by blast
  then have "first_agent_dialogue evs \<noteq> []" by (auto simp: candidate_def qualifies_def)
  with True show ?thesis by simp
next
  case False
  then show ?thesis by (simp add: first_agent_dialogue_filter no_candidates)
qed

lemma process_events_no_tool_call:
  "\<not> list_ex has_tool_calls evs \<Longrightarrow>
     process_events evs =
       \<lparr>tool_echoes = [], report = Some (agent_final_report (first_agent_dialogue evs))\<rparr>"
  by (simp add: process_events_def Let_def first_agent_dialogue_def scan_def event_loop_action
      event_loop_echoed)

text \<open>
  Claim C2, as amended. Every event sequence yields exactly one report text: the trimmed text
  of the first event, in production order, whose trimmed text qualifies; no event before it
  qualifies, and what follows it is not constrained. The report is non-empty exactly when
  some event qualifies. In a cycle without tool calls the handler shows it once (the
  fallback message when it is empty).
\<close>

theorem first_candidate_is_the_report:
  "(first_agent_dialogue evs \<noteq> []) = list_ex candidate evs
   \<and> (list_ex candidate evs \<longrightarrow>
        (\<exists>pre ev post. evs = pre @ ev # post \<and> \<not> list_ex candidate pre \<and> candidate ev \<and>
           stripped_text ev = Some (first_agent_dialogue evs)))
   \<and> (\<not> list_ex has_tool_calls evs \<longrightarrow>
        report (process_events evs) = Some (agent_final_report (first_agent_dialogue evs)))"
  using report_nonempty_iff [of evs] first_candidate_split [of evs]
  by (simp add: process_events_no_tool_call)

lemmas ev_defs = first_agent_dialogue_def scan_def display_tool_calls_def
  capture_message_def strip_def isspace_def py_def startswith_def

lemmas voc_defs = candidate_def stripped_text_def event_text_def qualifies_def has_tool_calls_def

text \<open>The narrated sequence has a qualifying event; the single report sequence has no tool call.\<close>

theorem first_candidate_is_the_report_witness:
  "first_agent_dialogue narrated_events \<noteq> []
   \<and> (\<exists>pre ev post. narrated_events = pre @ ev # post \<and> \<not> list_ex candidate pre \<and> candidate ev \<and>
           stripped_text ev = Some (first_agent_dialogue narrated_events))
   \<and> report (process_events single_report_events) =
        Some (agent_final_report (first_agent_dialogue single_report_events))"
proof -
  have c: "list_ex candidate narrated_events"
    by (simp add: narrated_events_def voc_defs strip_def isspace_def py_def startswith_def)
  have n: "\<not> list_ex has_tool_calls single_report_events"
    by (simp add: single_report_events_def has_tool_calls_def)
  from first_candidate_is_the_report [of narrated_events] c
  have 1: "first_agent_dialogue narrated_events \<noteq> []
   \<and> (\<exists>pre ev post. narrated_events = pre @ ev # post \<and> \<not> list_ex candidate pre \<and> candidate ev \<and>
           stripped_text ev = Some (first_agent_dialogue narrated_events))"
    by blast
  from first_candidate_is_the_report [of single_report_events] n
  have 2: "report (process_events single_report_events) =
        Some (agent_final_report (first_agent_dialogue single_report_events))"
    by blast
  from 1 2 show ?thesis by blast
qed

text \<open>
  Claim C2 as stated fails. In the narrated sequence the report is the first text, which a
  tool call and the agent's closing text follow; in the sequence of a lone tool call the
  report is empty.
\<close>

theorem first_text_is_not_terminal:
  "first_agent_dialogue narrated_events = py ''Newsletter.''
   \<and> \<not> report_is_terminal narrated_events
   \<and> first_agent_dialogue tool_only_events = []
   \<and> \<not> report_is_terminal tool_only_events"
proof -
  have 1: "first_agent_dialogue narrated_events = py ''Newsletter.''"
    by (simp add: ev_defs narrated_events_def)
  have 2: "first_agent_dialogue tool_only_events = []"
    by (simp add: ev_defs tool_only_events_def)
  have 3: "\<not> report_is_terminal tool_only_events"
    by (simp add: report_is_terminal_def 2)
  have 4: "\<not> report_is_terminal narrated_events"
    unfolding report_is_terminal_def 1
    by (simp add: narrated_events_def stripped_text_def event_text_def has_tool_calls_def
        strip_def isspace_def py_def upt_rec)
  from 1 2 3 4 show ?thesis by simp
qed

text \<open>
  Claim C6, as amended. When the events hold no tool call and exactly one text, and that
  text after trimming starts with neither \<open>tool_code:\<close> nor \<open>print(\<close>, the report is that text
  after trimming, no tool call is echoed, and the handler shows the report (the fallback
  message when the trimmed text is empty).
\<close>

theorem single_text_is_the_report:
  "no_tool_calls evs \<Longrightarrow> texts evs = [t] \<Longrightarrow>
   \<not> startswith (strip t) (py ''tool_code:'') \<Longrightarrow> \<not> startswith (strip t) (py ''print('') \<Longrightarrow>
     first_agent_dialogue evs = strip t \<and>
     tool_echoes (process_events evs) = [] \<and>
     report (process_events evs) = Some (agent_final_report (strip t))"
proof -
  assume a: "no_tool_calls evs" and b: "texts evs = [t]"
    and c: "\<not> startswith (strip t) (py ''tool_code:'')" and d: "\<not> startswith (strip t) (py ''print('')"
  from a have n: "\<not> list_ex has_tool_calls evs"
    by (simp add: no_tool_calls_def list_all_iff list_ex_iff)
  from b c d have f: "first_agent_dialogue evs = strip t"
    by (simp add: first_agent_dialogue_filter qualifies_def)
  from process_events_no_tool_call [OF n] f show ?thesis by simp
qed

text \<open>One text with blanks around it, after an event with an empty list of tool calls.\<close>

theorem single_text_is_the_report_witness:
  "first_agent_dialogue single_report_events = py ''URGENT.'' \<and>
   tool_echoes (process_events single_report_events) = [] \<and>
   report (process_events single_report_events) = Some (Success (py ''URGENT.''))"
proof -
  have s: "strip (py '' URGENT. '') = py ''URGENT.''"
    by (simp add: strip_def isspace_def py_def)
  have a: "no_tool_calls single_report_events"
    by (simp add: no_tool_calls_def single_report_events_def has_tool_calls_def)
  have b: "texts single_report_events = [py '' URGENT. '']"
    by (simp add: single_report_events_def texts_Cons texts_Nil event_text_def)
  have c: "\<not> startswith (strip (py '' URGENT. '')) (py ''tool_code:'')"
    unfolding s by (simp add: startswith_def py_def)
  have d: "\<not> startswith (strip (py '' URGENT. '')) (py ''print('')"
    unfolding s by (simp add: startswith_def py_def)
  have e: "agent_final_report (py ''URGENT.'') = Success (py ''URGENT.'')"
    by (simp add: agent_final_report_def py_def)
  from single_text_is_the_report [OF a b c d] show ?thesis by (simp add: s e)
qed

text \<open>
  Claim C6 as stated fails: a single text that starts with \<open>print(\<close>, with no tool call
  around, is discarded, and the report is empty.
\<close>

theorem echoed_text_is_not_reported:
  "no_tool_calls echo_events \<and> texts echo_events = [py ''print(1)'']
   \<and> strip (py ''print(1)'') = py ''print(1)''
   \<and> first_agent_dialogue echo_events = []
   \<and> first_agent_dialogue echo_events \<noteq> strip (py ''print(1)'')"
proof -
  have s: "strip (py ''print(1)'') = py ''print(1)''"
    by (simp add: strip_def isspace_def py_def)
  have a: "no_tool_calls echo_events"
    by (simp add: no_tool_calls_def echo_events_def has_tool_calls_def)
  have b: "texts echo_events = [py ''print(1)'']"
    by (simp add: echo_events_def texts_Cons texts_Nil event_text_def)
  have f: "first_agent_dialogue echo_events = []"
    by (simp add: ev_defs echo_events_def)
  have n: "py ''print(1)'' \<noteq> []" by (simp add: py_def)
  from s a b f n show ?thesis by simp
qed

section \<open>A cycle with a tool call shows no report\<close>

text \<open>
  Once a tool call was seen, the handler refreshes the inbox and reruns the script (lines
  314-319), and the report lines after it are not reached.
\<close>

lemma process_events_tool_call:
  "list_ex has_tool_calls evs \<Longrightarrow> report (process_events evs) = None"
  by (simp add: process_events_def Let_def scan_def event_loop_action)

text \<open>
  Claim C3. The report extraction scans the textual events in production order, discards
  the empty ones and the echoed tool invocations, takes the first that remains as the
  report, and falls back to an explicit message when none remains. The extraction does so
  for every event sequence (\<open>report_extraction_rule\<close>), but the handler does not show the
  outcome for every event sequence. For the lone tool call no text qualifies, the report
  is empty and the report lines would show the fallback, yet the handler shows nothing;
  for the narrated sequence, which has a qualifying text, it shows nothing either. The
  branch without a tool call does reach the report lines: for the empty event sequence the
  fallback is shown.
\<close>

theorem tool_call_cycle_shows_no_fallback:
  "filter qualifies (map strip (texts tool_only_events)) = []
   \<and> first_agent_dialogue tool_only_events = []
   \<and> agent_final_report (first_agent_dialogue tool_only_events) =
       Info (py ''Look at the terminal for the output'')
   \<and> report (process_events tool_only_events) = None
   \<and> report (process_events narrated_events) = None
   \<and> report (process_events []) = Some (Info (py ''Look at the terminal for the output''))"
proof -
  have t: "texts tool_only_events = []"
    by (simp add: tool_only_events_def texts_Cons texts_Nil event_text_def)
  have 1: "filter qualifies (map strip (texts tool_only_events)) = []"
    by (simp add: t)
  have 2: "first_agent_dialogue tool_only_events = []"
    by (simp add: first_agent_dialogue_filter t)
  have 3: "agent_final_report (first_agent_dialogue tool_only_events) =
       Info (py ''Look at the terminal for the output'')"
    by (simp add: 2 agent_final_report_def)
  have "list_ex has_tool_calls tool_only_events"
    by (simp add: tool_only_events_def has_tool_calls_def)
  then have 4: "report (process_events tool_only_events) = None"
    by (rule process_events_tool_call)
  have "list_ex has_tool_calls narrated_events"
    by (simp add: narrated_events_def has_tool_calls_def)
  then have 5: "report (process_events narrated_events) = None"
    by (rule process_events_tool_call)
  have "\<not> list_ex has_tool_calls []" by simp
  then have "process_events [] =
       \<lparr>tool_echoes = [], report = Some (agent_final_report (first_agent_dialogue []))\<rparr>"
    by (rule process_events_no_tool_call)
  moreover have "first_agent_dialogue [] = []"
    by (simp add: first_agent_dialogue_filter texts_Nil)
  ultimately have 6: "report (process_events []) = Some (Info (py ''Look at the terminal for the output''))"
    by (simp add: agent_final_report_def)
  from 1 2 3 4 5 6 show ?thesis by simp
qed

end
